theory Spec2Isabelle
  imports Main
begin

section \<open>Python exceptions\<close>

text \<open>
  An exception is its class and the text \<open>str(ex)\<close> prints. The first four classes derive
  from \<open>Exception\<close>; \<open>KeyboardInterrupt\<close> and \<open>SystemExit\<close> derive from
  \<open>BaseException\<close> only, so a handler \<open>except Exception\<close> lets them pass.
\<close>

datatype exn_class =
  ValueError | IndexError | AttributeError | OtherException | KeyboardInterrupt | SystemExit

datatype pyexn = PyExn exn_class string

fun is_Exception :: "pyexn \<Rightarrow> bool" where
  "is_Exception (PyExn c msg) = (c \<noteq> KeyboardInterrupt \<and> c \<noteq> SystemExit)"

fun exn_str :: "pyexn \<Rightarrow> string" where
  "exn_str (PyExn c msg) = msg"

definition quoted :: "string \<Rightarrow> string" where
  "quoted s = CHR 0x27 # s @ [CHR 0x27]"

definition no_attribute :: "string \<Rightarrow> pyexn" where
  "no_attribute attr =
     PyExn AttributeError (quoted ''NoneType'' @ '' object has no attribute '' @ quoted attr)"

definition list_index_out_of_range :: pyexn where
  "list_index_out_of_range = PyExn IndexError ''list index out of range''"

section \<open>The argument resolver: \<open>parse_args\<close>\<close>

text \<open>
  A character stands for one code point below 256. \<open>isspace\<close> is \<open>str.isspace\<close> on that
  range, and \<open>strip\<close> is \<open>str.strip()\<close> with no argument.
\<close>

definition isspace :: "char \<Rightarrow> bool" where
  "isspace c = (of_char c \<in> {9, 10, 11, 12, 13, 28, 29, 30, 31, 32, 133, 160 :: nat})"

definition strip :: "string \<Rightarrow> string" where
  "strip s = rev (dropWhile isspace (rev (dropWhile isspace s)))"

text \<open>
  The comprehension
  \<^verbatim>\<open>[(sys.argv[idx], sys.argv[idx + 1]) for idx, itm in enumerate(sys.argv) if itm == flag]\<close>:
  every occurrence of the flag is paired with the token after it, and an occurrence in
  the last position reads past the end of the list.
\<close>

fun flag_params :: "string \<Rightarrow> string list \<Rightarrow> pyexn + (string \<times> string) list" where
  "flag_params flag [] = Inr []"
| "flag_params flag (itm # rest) =
     (if itm = flag then
        (case rest of
           [] \<Rightarrow> Inl list_index_out_of_range
         | nxt # _ \<Rightarrow>
             (case flag_params flag rest of
                Inl e \<Rightarrow> Inl e
              | Inr ps \<Rightarrow> Inr ((itm, nxt) # ps)))
      else flag_params flag rest)"

text \<open>The four-element list \<open>parse_args\<close> returns, by the names of its local variables.\<close>

record model_filter =
  model_name :: string
  model_version :: "string option"
  model_tag_name :: "string option"
  model_tag_value :: "string option"

definition model_name_required :: pyexn where
  "model_name_required =
     PyExn ValueError
       ''Model name is required but no model name parameter was passed to the script''"

text \<open>
  The conditional of \<open>model_version\<close> and \<open>model_tag_name\<close>:
  \<^verbatim>\<open>None if len(p) < 1 or len(p[0][1].strip()) == 0 else p[0][1]\<close>.
\<close>

definition optional_param :: "(string \<times> string) list \<Rightarrow> string option" where
  "optional_param p =
     (case p of
        [] \<Rightarrow> None
      | p0 # _ \<Rightarrow> if length (strip (snd p0)) = 0 then None else Some (snd p0))"

text \<open>
  The conditional of \<open>model_tag_value\<close> tests the length of its own list and then the
  value in \<open>model_tag_name_param[0]\<close>, which raises when that list is empty.
\<close>

definition tag_value_param ::
  "(string \<times> string) list \<Rightarrow> (string \<times> string) list \<Rightarrow> pyexn + string option" where
  "tag_value_param model_tag_name_param model_tag_value_param =
     (case model_tag_value_param of
        [] \<Rightarrow> Inr None
      | v0 # _ \<Rightarrow>
          (case model_tag_name_param of
             [] \<Rightarrow> Inl list_index_out_of_range
           | n0 # _ \<Rightarrow> if length (strip (snd n0)) = 0 then Inr None else Inr (Some (snd v0))))"

definition parse_args :: "string list \<Rightarrow> pyexn + model_filter" where
  "parse_args argv =
     (case flag_params ''--model_name'' argv of
        Inl e \<Rightarrow> Inl e
      | Inr model_name_param \<Rightarrow>
          (case model_name_param of
             [] \<Rightarrow> Inl model_name_required
           | n0 # _ \<Rightarrow>
               (case flag_params ''--model_version'' argv of
                  Inl e \<Rightarrow> Inl e
                | Inr model_version_param \<Rightarrow>
                    (case flag_params ''--model_tag_name'' argv of
                       Inl e \<Rightarrow> Inl e
                     | Inr model_tag_name_param \<Rightarrow>
                         (case flag_params ''--model_tag_value'' argv of
                            Inl e \<Rightarrow> Inl e
                          | Inr model_tag_value_param \<Rightarrow>
                              (case tag_value_param model_tag_name_param model_tag_value_param of
                                 Inl e \<Rightarrow> Inl e
                               | Inr tag_value \<Rightarrow>
                                   Inr \<lparr>model_name = snd n0,
                                        model_version = optional_param model_version_param,
                                        model_tag_name = optional_param model_tag_name_param,
                                        model_tag_value = tag_value\<rparr>))))))"

text \<open>
  The recognised flags, and the well-formed argument vectors: those in which no recognised
  flag is the last token, so that each one is followed by a value.
\<close>

definition recognised_flags :: "string list" where
  "recognised_flags =
     [''--model_name'', ''--model_version'', ''--model_tag_name'', ''--model_tag_value'']"

definition well_formed :: "string list \<Rightarrow> bool" where
  "well_formed argv = (argv = [] \<or> last argv \<notin> set recognised_flags)"

section \<open>The worker and its initialization hook: \<open>init\<close>\<close>

text \<open>
  The process-wide state the two hooks share: the global \<open>model\<close> (\<open>None\<close> until a
  model is loaded) and the lines printed so far.
\<close>

record 'm worker =
  model :: "'m option"
  stdout :: "string list"

definition py_print :: "string \<Rightarrow> 'm worker \<Rightarrow> 'm worker" where
  "py_print line w = w\<lparr>stdout := stdout w @ [line]\<rparr>"

text \<open>What \<open>get_model\<close> hands back: an object with the attributes \<open>name\<close> and \<open>version\<close>.\<close>

record amlmodel =
  aml_name :: string
  aml_version :: int

text \<open>
  The three collaborators \<open>init\<close> calls are parameters: \<open>get_model\<close> (which may return
  \<open>None\<close>), \<open>Model.get_model_path\<close> and \<open>joblib.load\<close>. Each one returns or raises.
\<close>

type_synonym get_model_fn =
  "string \<Rightarrow> string option \<Rightarrow> string option \<Rightarrow> string option \<Rightarrow> pyexn + amlmodel option"

type_synonym get_model_path_fn = "string \<Rightarrow> int \<Rightarrow> pyexn + string"

type_synonym 'm joblib_load_fn = "string \<Rightarrow> pyexn + 'm"

text \<open>
  The body of the \<open>try\<close> block: the worker as the body leaves it, and the exception that
  ended it, if one did.
\<close>

definition init_body ::
  "get_model_fn \<Rightarrow> get_model_path_fn \<Rightarrow> 'm joblib_load_fn \<Rightarrow> string list \<Rightarrow> 'm worker
     \<Rightarrow> 'm worker \<times> pyexn option" where
  "init_body get_model get_model_path joblib_load argv w =
     (let w1 = py_print ''Initializing batch scoring script...'' w in
      case parse_args argv of
        Inl e \<Rightarrow> (w1, Some e)
      | Inr model_filter \<Rightarrow>
          (case get_model (model_name model_filter) (model_version model_filter)
                  (model_tag_name model_filter) (model_tag_value model_filter) of
             Inl e \<Rightarrow> (w1, Some e)
           | Inr None \<Rightarrow> (w1, Some (no_attribute ''name''))
           | Inr (Some amlmodel) \<Rightarrow>
               (case get_model_path (aml_name amlmodel) (aml_version amlmodel) of
                  Inl e \<Rightarrow> (w1, Some e)
                | Inr modelpath \<Rightarrow>
                    (case joblib_load modelpath of
                       Inl e \<Rightarrow> (w1, Some e)
                     | Inr m \<Rightarrow>
                         (py_print (''Loaded model '' @ model_name model_filter)
                            (w1\<lparr>model := Some m\<rparr>), None)))))"

text \<open>
  \<open>init\<close>: the body under \<open>except Exception as ex: print("Error: {}".format(ex))\<close>. The
  second component is \<open>None\<close> when \<open>init\<close> returns and the exception when one leaves it.
\<close>

definition init ::
  "get_model_fn \<Rightarrow> get_model_path_fn \<Rightarrow> 'm joblib_load_fn \<Rightarrow> string list \<Rightarrow> 'm worker
     \<Rightarrow> 'm worker \<times> pyexn option" where
  "init get_model get_model_path joblib_load argv w =
     (case init_body get_model get_model_path joblib_load argv w of
        (w', None) \<Rightarrow> (w', None)
      | (w', Some ex) \<Rightarrow>
          if is_Exception ex then (py_print (''Error: '' @ exn_str ex) w', None)
          else (w', Some ex))"

section \<open>Arrays and tables\<close>

text \<open>
  A numpy array of up to two dimensions: a 0-d array, a 1-D array, or a 2-D array as the
  list of its rows.
\<close>

datatype 'c ndarray = A0 'c | A1 "'c list" | A2 "'c list list"

definition np_array :: "'c ndarray \<Rightarrow> 'c ndarray" where
  "np_array pred = pred"

fun atleast_2d :: "'c ndarray \<Rightarrow> 'c list list" where
  "atleast_2d (A0 x) = [[x]]"
| "atleast_2d (A1 xs) = [xs]"
| "atleast_2d (A2 rs) = rs"

definition ncols :: "'c list list \<Rightarrow> nat" where
  "ncols rs = (case rs of [] \<Rightarrow> 0 | r # _ \<Rightarrow> length r)"

text \<open>
  \<open>np.vstack((a, b))\<close>: both arrays are made 2-D and concatenated along the rows, which
  raises when their numbers of columns differ.
\<close>

definition np_vstack :: "'c ndarray \<Rightarrow> 'c ndarray \<Rightarrow> pyexn + 'c ndarray" where
  "np_vstack a b =
     (let ra = atleast_2d a; rb = atleast_2d b in
      if ncols ra = ncols rb then Inr (A2 (ra @ rb))
      else Inl (PyExn ValueError
        ''all the input array dimensions except for the concatenation axis must match exactly''))"

text \<open>A cell of a table holds a value or is missing.\<close>

datatype 'v cell = Val 'v | NaN

datatype label = IntLabel int | StrLabel string

text \<open>A pandas DataFrame: the column names, and the rows in order, each under its index label.\<close>

record 'v dataframe =
  columns :: "string list"
  rows :: "(label \<times> 'v cell list) list"

definition range_index :: "'a list \<Rightarrow> (label \<times> 'a) list" where
  "range_index xs = zip (map (\<lambda>i. IntLabel (int i)) [0..<length xs]) xs"

text \<open>
  \<open>pd.DataFrame(result, columns=cols)\<close> on an array: a 0-d array is refused, a 1-D array is
  one column, and the shape must fit the column names. The index is the fresh \<open>0..n-1\<close>.
\<close>

definition pd_DataFrame :: "'v cell ndarray \<Rightarrow> string list \<Rightarrow> pyexn + 'v dataframe" where
  "pd_DataFrame data cols =
     (case data of
        A0 x \<Rightarrow> Inl (PyExn ValueError ''Must pass 2-d input. shape=()'')
      | A1 xs \<Rightarrow>
          if length cols = 1
          then Inr \<lparr>columns = cols, rows = range_index (map (\<lambda>x. [x]) xs)\<rparr>
          else Inl (PyExn ValueError ''Shape of passed values does not match the columns'')
      | A2 rs \<Rightarrow>
          if ncols rs = length cols
          then Inr \<lparr>columns = cols, rows = range_index rs\<rparr>
          else Inl (PyExn ValueError ''Shape of passed values does not match the columns''))"

text \<open>
  \<open>left.join(right)\<close>: a left join on the index labels. A column name on both sides is
  refused; otherwise every row of \<open>left\<close> stays in place and gets the cells of the row of
  \<open>right\<close> under the same label, or missing values when \<open>right\<close> has no such label.
\<close>

definition df_join :: "'v dataframe \<Rightarrow> 'v dataframe \<Rightarrow> pyexn + 'v dataframe" where
  "df_join left right =
     (if \<exists>c \<in> set (columns left). c \<in> set (columns right)
      then Inl (PyExn ValueError ''columns overlap but no suffix specified'')
      else Inr \<lparr>columns = columns left @ columns right,
                rows = map (\<lambda>(l, cells).
                              (l, cells @ (case map_of (rows right) l of
                                             None \<Rightarrow> replicate (length (columns right)) NaN
                                           | Some rc \<Rightarrow> rc)))
                         (rows left)\<rparr>)"

section \<open>The scoring hook: \<open>run\<close>\<close>

text \<open>
  The predictor is a parameter: \<open>predict m x\<close> is \<open>m.predict(x)\<close> on the one-row matrix
  whose row is \<open>x\<close>; it returns an array or raises.
\<close>

type_synonym ('m, 'v) predict_fn = "'m \<Rightarrow> 'v cell list \<Rightarrow> pyexn + 'v cell ndarray"

text \<open>
  The \<open>for\<close> loop over \<open>mini_batch.iterrows()\<close>, from the current \<open>result\<close>. It yields the
  feature vectors \<open>predict\<close> was called on, in order, and the final \<open>result\<close> or the
  exception that ended the loop. With no model loaded, \<open>model.predict\<close> raises before
  any call.
\<close>

fun run_loop ::
  "('m, 'v) predict_fn \<Rightarrow> 'm option \<Rightarrow> (label \<times> 'v cell list) list \<Rightarrow> 'v cell ndarray option
     \<Rightarrow> 'v cell list list \<times> (pyexn + 'v cell ndarray option)" where
  "run_loop predict mdl [] result = ([], Inr result)"
| "run_loop predict mdl ((lbl, sample) # rest) result =
     (case mdl of
        None \<Rightarrow> ([], Inl (no_attribute ''predict''))
      | Some m \<Rightarrow>
          (case predict m sample of
             Inl e \<Rightarrow> ([sample], Inl e)
           | Inr pred \<Rightarrow>
               (case (case result of
                        None \<Rightarrow> Inr (np_array pred)
                      | Some r \<Rightarrow> np_vstack r pred) of
                  Inl e \<Rightarrow> ([sample], Inl e)
                | Inr r' \<Rightarrow>
                    (case run_loop predict mdl rest (Some r') of
                       (calls, out) \<Rightarrow> (sample # calls, out)))))"

text \<open>What \<open>run\<close> gives its caller: the list \<open>[]\<close>, a table, or \<open>None\<close>.\<close>

datatype 'v run_value = EmptyList | Frame "'v dataframe" | NoneValue

datatype 'v outcome = Returned "'v run_value" | Raised pyexn

text \<open>The body of the \<open>try\<close> block of \<open>run\<close>.\<close>

definition run_body ::
  "('m, 'v) predict_fn \<Rightarrow> 'm option \<Rightarrow> 'v dataframe
     \<Rightarrow> 'v cell list list \<times> (pyexn + 'v run_value)" where
  "run_body predict mdl mini_batch =
     (case run_loop predict mdl (rows mini_batch) None of
        (calls, Inl e) \<Rightarrow> (calls, Inl e)
      | (calls, Inr None) \<Rightarrow> (calls, Inr EmptyList)
      | (calls, Inr (Some result)) \<Rightarrow>
          (case pd_DataFrame result [''score''] of
             Inl e \<Rightarrow> (calls, Inl e)
           | Inr scores \<Rightarrow>
               (case df_join mini_batch scores of
                  Inl e \<Rightarrow> (calls, Inl e)
                | Inr joined \<Rightarrow> (calls, Inr (Frame joined)))))"

text \<open>
  \<open>run\<close>: the body under \<open>except Exception as ex: print(ex)\<close>, after which the function
  falls off its end and returns \<open>None\<close>. The result is the worker afterwards, the calls
  made to \<open>predict\<close>, and what the caller gets.
\<close>

definition run ::
  "('m, 'v) predict_fn \<Rightarrow> 'm worker \<Rightarrow> 'v dataframe
     \<Rightarrow> 'm worker \<times> 'v cell list list \<times> 'v outcome" where
  "run predict w mini_batch =
     (case run_body predict (model w) mini_batch of
        (calls, Inr v) \<Rightarrow> (w, calls, Returned v)
      | (calls, Inl ex) \<Rightarrow>
          if is_Exception ex then (py_print (exn_str ex) w, calls, Returned NoneValue)
          else (w, calls, Raised ex))"

section \<open>Test doubles\<close>

text \<open>
  Collaborators for the concrete runs below: a registry that finds version 1 of any name,
  a path lookup that succeeds, and a loader that fails.
\<close>

definition stub_get_model :: get_model_fn where
  "stub_get_model name version tag_name tag_value = Inr (Some \<lparr>aml_name = name, aml_version = 1\<rparr>)"

definition stub_get_model_path :: get_model_path_fn where
  "stub_get_model_path name version = Inr (''azureml-models/'' @ name)"

definition stub_joblib_load_fails :: "unit joblib_load_fn" where
  "stub_joblib_load_fails path = Inl (PyExn OtherException ''file is not a pickle'')"

section \<open>Properties of \<open>parse_args\<close>\<close>

lemma blank_iff: "(length (strip s) = 0) = (\<forall>c \<in> set s. isspace c)"
proof -
  let ?d = "dropWhile isspace s"
  have a: "(strip s = []) = (\<forall>x \<in> set ?d. isspace x)"
    by (simp add: strip_def)
  have b: "(\<forall>x \<in> set ?d. isspace x) = (?d = [])"
  proof (cases "?d = []")
    case True
    show ?thesis by (simp only: True) simp
  next
    case False
    then have "\<not> isspace (hd ?d)" by (rule hd_dropWhile)
    moreover from False have "hd ?d \<in> set ?d" by simp
    ultimately show ?thesis using False by blast
  qed
  have c: "(?d = []) = (\<forall>c \<in> set s. isspace c)"
    by simp
  show ?thesis by (simp only: length_0_conv a b c)
qed

lemma flag_params_absent: "flag \<notin> set argv \<Longrightarrow> flag_params flag argv = Inr []"
  by (induction argv) auto

lemma flag_params_skip:
  "flag \<notin> set pre \<Longrightarrow> flag_params flag (pre @ rest) = flag_params flag rest"
  by (induction pre) auto

lemma flag_params_Inl:
  "flag_params flag argv = Inl e \<Longrightarrow> e = list_index_out_of_range \<and> argv \<noteq> [] \<and> last argv = flag"
proof (induction argv)
  case Nil
  then show ?case by simp
next
  case (Cons itm rest)
  show ?case
  proof (cases rest)
    case Nil
    with Cons.prems show ?thesis by (simp split: if_splits)
  next
    case (Cons nxt rest')
    with Cons.prems have "flag_params flag rest = Inl e"
      by (cases "flag_params flag rest") (simp_all split: if_splits)
    with Cons.IH Cons show ?thesis by simp
  qed
qed

lemma flag_params_well_formed:
  assumes "argv = [] \<or> last argv \<noteq> flag"
  shows "\<exists>ps. flag_params flag argv = Inr ps"
proof (cases "flag_params flag argv")
  case (Inl e)
  from flag_params_Inl [OF Inl] assms show ?thesis by blast
next
  case (Inr ps)
  then show ?thesis by blast
qed

lemma flag_params_first:
  assumes "flag \<notin> set pre" and "flag_params flag (pre @ flag # v # post) = Inr ps"
  shows "\<exists>ps'. ps = (flag, v) # ps'"
proof -
  from assms have "flag_params flag (flag # v # post) = Inr ps"
    by (simp add: flag_params_skip)
  then show ?thesis
    by (cases "flag_params flag (v # post)") auto
qed

lemma flag_params_present:
  "flag \<in> set argv \<Longrightarrow> flag_params flag argv = Inr ps \<Longrightarrow> ps \<noteq> []"
proof (induction argv)
  case Nil
  then show ?case by simp
next
  case (Cons itm rest)
  show ?case
  proof (cases "itm = flag")
    case True
    with Cons.prems(2) show ?thesis
      by (cases rest; cases "flag_params flag rest") auto
  next
    case False
    with Cons show ?thesis by simp
  qed
qed

lemma well_formed_flag:
  assumes "well_formed argv" and "flag \<in> set recognised_flags"
  shows "\<exists>ps. flag_params flag argv = Inr ps"
proof (rule flag_params_well_formed)
  from assms show "argv = [] \<or> last argv \<noteq> flag"
    unfolding well_formed_def by blast
qed

lemma parse_args_result:
  assumes "flag_params ''--model_name'' argv = Inr (n0 # ns)"
    and "flag_params ''--model_version'' argv = Inr vp"
    and "flag_params ''--model_tag_name'' argv = Inr tnp"
    and "flag_params ''--model_tag_value'' argv = Inr tvp"
    and "tag_value_param tnp tvp = Inr tv"
  shows "parse_args argv =
           Inr \<lparr>model_name = snd n0, model_version = optional_param vp,
                model_tag_name = optional_param tnp, model_tag_value = tv\<rparr>"
  using assms by (simp add: parse_args_def)

lemma optional_param_first:
  "optional_param ((flag, v) # ps) = (if \<forall>c \<in> set v. isspace c then None else Some v)"
  using blank_iff [of v] by (simp add: optional_param_def)

lemma tag_value_param_first:
  "tag_value_param ((fn, v) # ns) ((fv, tv) # vs) =
     Inr (if \<forall>c \<in> set v. isspace c then None else Some tv)"
  using blank_iff [of v] by (simp add: tag_value_param_def)

lemma flags_recognised:
  "''--model_name'' \<in> set recognised_flags"
  "''--model_version'' \<in> set recognised_flags"
  "''--model_tag_name'' \<in> set recognised_flags"
  "''--model_tag_value'' \<in> set recognised_flags"
  by (simp_all add: recognised_flags_def)

lemma model_name_params:
  assumes "well_formed argv" and "''--model_name'' \<in> set argv"
  shows "\<exists>n0 ns. flag_params ''--model_name'' argv = Inr (n0 # ns)"
proof -
  from well_formed_flag [OF assms(1) flags_recognised(1)]
  obtain ps where ps: "flag_params ''--model_name'' argv = Inr ps" by blast
  from flag_params_present [OF assms(2) ps] obtain n0 ns where "ps = n0 # ns"
    by (cases ps) auto
  with ps show ?thesis by blast
qed

text \<open>
  Claim C7. For every argument vector in which the token \<open>--model_name\<close> does not occur,
  \<open>parse_args\<close> raises the \<open>ValueError\<close> that says the model name is required, and
  returns no filter.
\<close>

theorem parse_args_requires_model_name:
  "''--model_name'' \<notin> set argv \<Longrightarrow>
     parse_args argv =
       Inl (PyExn ValueError
              ''Model name is required but no model name parameter was passed to the script'')"
  by (simp add: parse_args_def flag_params_absent model_name_required_def)

theorem parse_args_requires_model_name_witness:
  "''--model_name'' \<notin> set [''parallel_batchscore.py'', ''--model_version'', ''3''] \<and>
   parse_args [''parallel_batchscore.py'', ''--model_version'', ''3''] =
     Inl (PyExn ValueError
            ''Model name is required but no model name parameter was passed to the script'')"
  using parse_args_requires_model_name [of "[''parallel_batchscore.py'', ''--model_version'', ''3'']"]
  by simp

text \<open>
  Claim C9 says that a filter \<open>parse_args\<close> returns never has an empty or
  whitespace-only name. The name is the token after the first \<open>--model_name\<close>, taken
  as it is: on the argument vector the pipeline builds with its default values, each a
  single space, \<open>parse_args\<close> returns the name \<open>" "\<close>.
\<close>

theorem parse_args_blank_model_name:
  "parse_args [''parallel_batchscore.py'', ''--model_name'', '' '', ''--model_version'', '' '',
               ''--model_tag_name'', '' '', ''--model_tag_value'', '' ''] =
     Inr \<lparr>model_name = '' '', model_version = None, model_tag_name = None,
          model_tag_value = None\<rparr>"
  by (simp add: parse_args_def optional_param_def tag_value_param_def strip_def isspace_def)

text \<open>
  Claim C5 says that with exactly one of \<open>--model_tag_name\<close> and
  \<open>--model_tag_value\<close> supplied, \<open>parse_args\<close> returns with both tag fields
  \<open>None\<close>. With the tag name alone the name is kept, and with the tag value alone
  \<open>parse_args\<close> raises \<open>IndexError\<close>.
\<close>

theorem parse_args_single_tag_counterexample:
  "parse_args [''parallel_batchscore.py'', ''--model_name'', ''m'', ''--model_tag_name'', ''k''] =
     Inr \<lparr>model_name = ''m'', model_version = None, model_tag_name = Some ''k'',
          model_tag_value = None\<rparr> \<and>
   parse_args [''parallel_batchscore.py'', ''--model_name'', ''m'', ''--model_tag_value'', ''v''] =
     Inl (PyExn IndexError ''list index out of range'')"
  by (simp add: parse_args_def optional_param_def tag_value_param_def strip_def isspace_def
      list_index_out_of_range_def)

text \<open>
  Claim C5, amended. For every well-formed argument vector that contains
  \<open>--model_name\<close> and \<open>--model_tag_name\<close> and in which \<open>--model_tag_value\<close> does not
  occur, \<open>parse_args\<close> returns a filter whose tag value is \<open>None\<close> and whose tag name
  is the token after the first \<open>--model_tag_name\<close>, or \<open>None\<close> when that token is
  empty or whitespace only.
\<close>

theorem parse_args_tag_name_only:
  assumes "well_formed argv"
    and "''--model_name'' \<in> set argv"
    and "argv = pre @ ''--model_tag_name'' # v # post"
    and "''--model_tag_name'' \<notin> set pre"
    and "''--model_tag_value'' \<notin> set argv"
  shows "\<exists>f. parse_args argv = Inr f \<and> model_tag_value f = None \<and>
             model_tag_name f = (if \<forall>c \<in> set v. isspace c then None else Some v)"
proof -
  from model_name_params [OF assms(1,2)]
  obtain n0 ns where np: "flag_params ''--model_name'' argv = Inr (n0 # ns)" by blast
  from well_formed_flag [OF assms(1) flags_recognised(2)]
  obtain vp where vp: "flag_params ''--model_version'' argv = Inr vp" by blast
  from well_formed_flag [OF assms(1) flags_recognised(3)]
  obtain tnp where tnp: "flag_params ''--model_tag_name'' argv = Inr tnp" by blast
  from tnp assms(3) have "flag_params ''--model_tag_name'' (pre @ ''--model_tag_name'' # v # post) = Inr tnp"
    by simp
  from flag_params_first [OF assms(4) this]
  obtain ps' where tnp': "tnp = (''--model_tag_name'', v) # ps'" by blast
  have tvp: "flag_params ''--model_tag_value'' argv = Inr []"
    using assms(5) by (rule flag_params_absent)
  have tv: "tag_value_param tnp [] = Inr None"
    by (simp add: tag_value_param_def)
  from parse_args_result [OF np vp tnp tvp tv] tnp' optional_param_first
  show ?thesis by simp
qed

theorem parse_args_tag_name_only_witness:
  "well_formed [''parallel_batchscore.py'', ''--model_name'', ''m'', ''--model_tag_name'', ''k''] \<and>
   (\<exists>f. parse_args [''parallel_batchscore.py'', ''--model_name'', ''m'', ''--model_tag_name'', ''k'']
           = Inr f \<and> model_tag_value f = None \<and> model_tag_name f = Some ''k'')"
proof -
  let ?argv = "[''parallel_batchscore.py'', ''--model_name'', ''m'', ''--model_tag_name'', ''k'']"
  have wf: "well_formed ?argv"
    by (simp add: well_formed_def recognised_flags_def)
  have nm: "''--model_name'' \<in> set ?argv" by simp
  have dc: "?argv = [''parallel_batchscore.py'', ''--model_name'', ''m''] @ ''--model_tag_name'' # ''k'' # []"
    by simp
  have pre: "''--model_tag_name'' \<notin> set [''parallel_batchscore.py'', ''--model_name'', ''m'']"
    by simp
  have tv: "''--model_tag_value'' \<notin> set ?argv" by simp
  have nb: "\<not> (\<forall>c \<in> set ''k''. isspace c)" by (simp add: isspace_def)
  from parse_args_tag_name_only [OF wf nm dc pre tv] nb wf show ?thesis by simp
qed

text \<open>
  Claim C6. For every well-formed argument vector that contains \<open>--model_name\<close>,
  \<open>--model_tag_name\<close> with the value \<open>v\<close> and \<open>--model_tag_value\<close> with the value
  \<open>tv\<close> (each value the token after the first occurrence of its flag), the tag value
  \<open>parse_args\<close> returns is decided by \<open>v\<close> alone: \<open>None\<close> when \<open>v\<close> is empty or
  whitespace only, whatever \<open>tv\<close> is, and \<open>tv\<close> otherwise.
\<close>

theorem parse_args_tag_value_follows_tag_name:
  assumes "well_formed argv"
    and "''--model_name'' \<in> set argv"
    and "argv = pre @ ''--model_tag_name'' # v # post"
    and "''--model_tag_name'' \<notin> set pre"
    and "argv = pre' @ ''--model_tag_value'' # tv # post'"
    and "''--model_tag_value'' \<notin> set pre'"
  shows "\<exists>f. parse_args argv = Inr f \<and>
             model_tag_value f = (if \<forall>c \<in> set v. isspace c then None else Some tv)"
proof -
  from model_name_params [OF assms(1,2)]
  obtain n0 ns where np: "flag_params ''--model_name'' argv = Inr (n0 # ns)" by blast
  from well_formed_flag [OF assms(1) flags_recognised(2)]
  obtain vp where vp: "flag_params ''--model_version'' argv = Inr vp" by blast
  from well_formed_flag [OF assms(1) flags_recognised(3)]
  obtain tnp where tnp: "flag_params ''--model_tag_name'' argv = Inr tnp" by blast
  from tnp assms(3) have "flag_params ''--model_tag_name'' (pre @ ''--model_tag_name'' # v # post) = Inr tnp"
    by simp
  from flag_params_first [OF assms(4) this]
  obtain ps' where tnp': "tnp = (''--model_tag_name'', v) # ps'" by blast
  from well_formed_flag [OF assms(1) flags_recognised(4)]
  obtain tvp where tvp: "flag_params ''--model_tag_value'' argv = Inr tvp" by blast
  from tvp assms(5) have "flag_params ''--model_tag_value'' (pre' @ ''--model_tag_value'' # tv # post') = Inr tvp"
    by simp
  from flag_params_first [OF assms(6) this]
  obtain qs' where tvp': "tvp = (''--model_tag_value'', tv) # qs'" by blast
  have "tag_value_param tnp tvp = Inr (if \<forall>c \<in> set v. isspace c then None else Some tv)"
    unfolding tnp' tvp' by (rule tag_value_param_first)
  from parse_args_result [OF np vp tnp tvp this] show ?thesis by simp
qed

theorem parse_args_tag_value_follows_tag_name_witness:
  "well_formed [''parallel_batchscore.py'', ''--model_name'', ''m'', ''--model_tag_name'', '' '',
                ''--model_tag_value'', ''v1''] \<and>
   (\<exists>f. parse_args [''parallel_batchscore.py'', ''--model_name'', ''m'', ''--model_tag_name'',
                      '' '', ''--model_tag_value'', ''v1''] = Inr f \<and>
        model_tag_value f = None)"
proof -
  let ?argv = "[''parallel_batchscore.py'', ''--model_name'', ''m'', ''--model_tag_name'', '' '',
                ''--model_tag_value'', ''v1'']"
  have wf: "well_formed ?argv"
    by (simp add: well_formed_def recognised_flags_def)
  have nm: "''--model_name'' \<in> set ?argv" by simp
  have dn: "?argv = [''parallel_batchscore.py'', ''--model_name'', ''m''] @
                      ''--model_tag_name'' # '' '' # [''--model_tag_value'', ''v1'']"
    by simp
  have pn: "''--model_tag_name'' \<notin> set [''parallel_batchscore.py'', ''--model_name'', ''m'']"
    by simp
  have dv: "?argv = [''parallel_batchscore.py'', ''--model_name'', ''m'', ''--model_tag_name'', '' ''] @
                      ''--model_tag_value'' # ''v1'' # []"
    by simp
  have pv: "''--model_tag_value'' \<notin>
              set [''parallel_batchscore.py'', ''--model_name'', ''m'', ''--model_tag_name'', '' '']"
    by simp
  have bl: "\<forall>c \<in> set '' ''. isspace c" by (simp add: isspace_def)
  from parse_args_tag_value_follows_tag_name [OF wf nm dn pn dv pv] bl wf show ?thesis by simp
qed

section \<open>Properties of \<open>init\<close>\<close>

lemma init_caught:
  assumes "init_body get_model get_model_path joblib_load argv w =
             (py_print ''Initializing batch scoring script...'' w, Some e)"
    and "is_Exception e"
  shows "init get_model get_model_path joblib_load argv w =
           (w\<lparr>stdout := stdout w @ [''Initializing batch scoring script...'',
                                      ''Error: '' @ exn_str e]\<rparr>, None)"
  using assms by (simp add: init_def py_print_def)

lemma init_body_parse_error:
  "parse_args argv = Inl e \<Longrightarrow>
     init_body get_model get_model_path joblib_load argv w =
       (py_print ''Initializing batch scoring script...'' w, Some e)"
  by (simp add: init_body_def)

lemma init_body_failure:
  assumes "parse_args argv = Inl e \<or>
           (\<exists>f. parse_args argv = Inr f \<and>
              (get_model (model_name f) (model_version f) (model_tag_name f) (model_tag_value f)
                 = Inl e \<or>
               get_model (model_name f) (model_version f) (model_tag_name f) (model_tag_value f)
                 = Inr None \<and> e = no_attribute ''name'' \<or>
               (\<exists>a. get_model (model_name f) (model_version f) (model_tag_name f)
                       (model_tag_value f) = Inr (Some a) \<and>
                  (get_model_path (aml_name a) (aml_version a) = Inl e \<or>
                   (\<exists>p. get_model_path (aml_name a) (aml_version a) = Inr p \<and>
                        joblib_load p = Inl e)))))"
  shows "init_body get_model get_model_path joblib_load argv w =
           (py_print ''Initializing batch scoring script...'' w, Some e)"
  using assms by (auto simp: init_body_def)

text \<open>
  Claim C4. Whenever a step of the initialization fails with an exception of class
  \<open>Exception\<close> (the argument parsing, the registry lookup, a registry lookup that finds
  nothing and returns \<open>None\<close>, the path lookup or the artifact load), \<open>init\<close> catches it,
  prints \<open>Error:\<close> and its text, and returns without raising; the global \<open>model\<close> keeps
  the value it had, \<open>None\<close> when nothing was loaded before.
\<close>

theorem init_swallows_failures:
  assumes "is_Exception e"
    and "parse_args argv = Inl e \<or>
         (\<exists>f. parse_args argv = Inr f \<and>
            (get_model (model_name f) (model_version f) (model_tag_name f) (model_tag_value f)
               = Inl e \<or>
             get_model (model_name f) (model_version f) (model_tag_name f) (model_tag_value f)
               = Inr None \<and> e = no_attribute ''name'' \<or>
             (\<exists>a. get_model (model_name f) (model_version f) (model_tag_name f)
                     (model_tag_value f) = Inr (Some a) \<and>
                (get_model_path (aml_name a) (aml_version a) = Inl e \<or>
                 (\<exists>p. get_model_path (aml_name a) (aml_version a) = Inr p \<and>
                      joblib_load p = Inl e)))))"
  shows "init get_model get_model_path joblib_load argv w =
           (w\<lparr>stdout := stdout w @ [''Initializing batch scoring script...'',
                                      ''Error: '' @ exn_str e]\<rparr>, None) \<and>
         model (fst (init get_model get_model_path joblib_load argv w)) = model w"
proof -
  from init_caught [OF init_body_failure [OF assms(2)] assms(1)]
  show ?thesis by simp
qed

theorem init_swallows_failures_witness:
  "init stub_get_model stub_get_model_path stub_joblib_load_fails
     [''parallel_batchscore.py'', ''--model_name'', ''m''] \<lparr>model = None, stdout = []\<rparr> =
     (\<lparr>model = None,
       stdout = [''Initializing batch scoring script...'', ''Error: file is not a pickle'']\<rparr>,
      None)"
proof -
  let ?argv = "[''parallel_batchscore.py'', ''--model_name'', ''m'']"
  let ?e = "PyExn OtherException ''file is not a pickle''"
  let ?f = "\<lparr>model_name = ''m'', model_version = None, model_tag_name = None,
             model_tag_value = None\<rparr>"
  have ex: "is_Exception ?e" by simp
  have pa: "parse_args ?argv = Inr ?f"
    by (simp add: parse_args_def optional_param_def tag_value_param_def)
  have "parse_args ?argv = Inl ?e \<or>
         (\<exists>f. parse_args ?argv = Inr f \<and>
            (stub_get_model (model_name f) (model_version f) (model_tag_name f) (model_tag_value f)
               = Inl ?e \<or>
             stub_get_model (model_name f) (model_version f) (model_tag_name f) (model_tag_value f)
               = Inr None \<and> ?e = no_attribute ''name'' \<or>
             (\<exists>a. stub_get_model (model_name f) (model_version f) (model_tag_name f)
                     (model_tag_value f) = Inr (Some a) \<and>
                (stub_get_model_path (aml_name a) (aml_version a) = Inl ?e \<or>
                 (\<exists>p. stub_get_model_path (aml_name a) (aml_version a) = Inr p \<and>
                      stub_joblib_load_fails p = Inl ?e)))))"
    by (simp add: pa stub_get_model_def stub_get_model_path_def stub_joblib_load_fails_def)
  from init_swallows_failures [OF ex this, of "\<lparr>model = None, stdout = []\<rparr>"]
  show ?thesis by simp
qed

text \<open>
  Claim C2 says that the missing-model-name error leaves \<open>init\<close> and aborts the worker's
  initialization. \<open>init\<close> wraps its whole body, \<open>parse_args\<close> included, in
  \<open>except Exception\<close>: on an argument vector without \<open>--model_name\<close> it prints the error
  and returns.
\<close>

theorem init_missing_model_name_counterexample:
  "init stub_get_model stub_get_model_path stub_joblib_load_fails
     [''parallel_batchscore.py'', ''--model_version'', ''3''] \<lparr>model = None, stdout = []\<rparr> =
     (\<lparr>model = None,
       stdout = [''Initializing batch scoring script...'',
                 ''Error: Model name is required but no model name parameter was passed to the script'']\<rparr>,
      None)"
  by (simp add: init_def init_body_def parse_args_def model_name_required_def py_print_def)

text \<open>
  Claim C2, amended. For every argument vector that does not contain \<open>--model_name\<close>, the
  \<open>ValueError\<close> of \<open>parse_args\<close> is caught inside \<open>init\<close>: \<open>init\<close> prints it after
  \<open>Error:\<close> and returns without raising, the worker otherwise unchanged, whatever the
  collaborators are.
\<close>

theorem init_swallows_missing_model_name:
  assumes "''--model_name'' \<notin> set argv"
  shows "init get_model get_model_path joblib_load argv w =
           (w\<lparr>stdout := stdout w @
                 [''Initializing batch scoring script...'',
                  ''Error: Model name is required but no model name parameter was passed to the script'']\<rparr>,
            None)"
proof -
  from assms have "parse_args argv = Inl model_name_required"
    by (simp add: parse_args_def flag_params_absent)
  then have "init_body get_model get_model_path joblib_load argv w =
               (py_print ''Initializing batch scoring script...'' w, Some model_name_required)"
    by (rule init_body_parse_error)
  from init_caught [OF this] show ?thesis
    by (simp add: model_name_required_def)
qed

theorem init_swallows_missing_model_name_witness:
  "''--model_name'' \<notin> set [''parallel_batchscore.py''] \<and>
   init stub_get_model stub_get_model_path stub_joblib_load_fails [''parallel_batchscore.py'']
     \<lparr>model = None, stdout = []\<rparr> =
     (\<lparr>model = None,
       stdout = [''Initializing batch scoring script...'',
                 ''Error: Model name is required but no model name parameter was passed to the script'']\<rparr>,
      None)"
  using init_swallows_missing_model_name
    [of "[''parallel_batchscore.py'']" stub_get_model stub_get_model_path stub_joblib_load_fails
        "\<lparr>model = None, stdout = []\<rparr>"]
  by simp

end
